theory Spec2Isabelle
  imports Main "HOL-Library.AList"
begin

section \<open>JavaScript values, objects and errors\<close>

text \<open>
  The code under verification is TypeScript that is deliberately called with ill-typed
  values (its tests pass \<open>undefined\<close>, \<open>null\<close> and \<open>{}\<close> where a bundle is expected), so
  values are modelled dynamically. Objects, functions and promises are references
  into a heap; two references are the same object exactly when their addresses are
  equal. Numbers are restricted to the integers and \<open>NaN\<close>.
\<close>

datatype jsval =
    JUndefined
  | JNull
  | JBool bool
  | JNum int
  | JNaN
  | JStr string
  | JObj nat
  | JFun nat
  | JPromise nat

text \<open>An object is its own enumerable properties in insertion order.\<close>

type_synonym props = "(string \<times> jsval) list"

type_synonym heap = "nat \<Rightarrow> props"

datatype jstype = TUndefined | TObject | TBoolean | TNumber | TString | TFunction

text \<open>The \<open>typeof\<close> operator.\<close>

fun typeof :: "jsval \<Rightarrow> jstype" where
  "typeof JUndefined = TUndefined"
| "typeof JNull = TObject"
| "typeof (JBool b) = TBoolean"
| "typeof (JNum n) = TNumber"
| "typeof JNaN = TNumber"
| "typeof (JStr s) = TString"
| "typeof (JObj a) = TObject"
| "typeof (JFun a) = TFunction"
| "typeof (JPromise a) = TObject"

text \<open>Truthiness, as used by \<open>!x\<close>, \<open>x && y\<close> and \<open>x || y\<close>.\<close>

fun truthy :: "jsval \<Rightarrow> bool" where
  "truthy JUndefined = False"
| "truthy JNull = False"
| "truthy (JBool b) = b"
| "truthy (JNum n) = (n \<noteq> 0)"
| "truthy JNaN = False"
| "truthy (JStr s) = (s \<noteq> [])"
| "truthy (JObj a) = True"
| "truthy (JFun a) = True"
| "truthy (JPromise a) = True"

text \<open>Strict equality \<open>===\<close>: by value on primitives, by address on references.\<close>

fun strict_eq :: "jsval \<Rightarrow> jsval \<Rightarrow> bool" where
  "strict_eq JNaN y = False"
| "strict_eq x y = (x = y)"

text \<open>\<open>x instanceof Promise\<close>.\<close>

fun instanceof_Promise :: "jsval \<Rightarrow> bool" where
  "instanceof_Promise (JPromise a) = True"
| "instanceof_Promise v = False"

text \<open>
  Errors raised by \<open>throw\<close>. \<open>TypeError\<close> carries its message (the \<open>cause\<close> option is
  not modelled); \<open>Thrown\<close> is any value thrown by user code.
\<close>

datatype error = TypeError string | Thrown jsval

fun is_TypeError :: "error \<Rightarrow> bool" where
  "is_TypeError (TypeError m) = True"
| "is_TypeError (Thrown v) = False"

text \<open>
  Property read \<open>v.k\<close>. Reading a property of \<open>undefined\<close> or \<open>null\<close> raises a
  \<open>TypeError\<close>. A primitive has none of the keys the code reads (\<open>client\<close>, \<open>close\<close>,
  \<open>isHealthy\<close>, \<open>status\<close>); prototype chains and getters are not modelled.
\<close>

fun is_ref :: "jsval \<Rightarrow> bool" where
  "is_ref (JObj a) = True"
| "is_ref (JFun a) = True"
| "is_ref (JPromise a) = True"
| "is_ref v = False"

fun addr_of :: "jsval \<Rightarrow> nat" where
  "addr_of (JObj a) = a"
| "addr_of (JFun a) = a"
| "addr_of (JPromise a) = a"
| "addr_of v = 0"

definition own :: "props \<Rightarrow> string \<Rightarrow> jsval" where
  "own ps k = (case map_of ps k of None \<Rightarrow> JUndefined | Some v \<Rightarrow> v)"

definition prop_of :: "heap \<Rightarrow> jsval \<Rightarrow> string \<Rightarrow> jsval" where
  "prop_of h v k = (if is_ref v then own (h (addr_of v)) k else JUndefined)"

definition nullish :: "jsval \<Rightarrow> bool" where
  "nullish v = (v = JUndefined \<or> v = JNull)"

definition get_prop :: "heap \<Rightarrow> jsval \<Rightarrow> string \<Rightarrow> error + jsval" where
  "get_prop h v k =
     (if nullish v then Inl (TypeError ''Cannot read properties of undefined or null'')
      else Inr (prop_of h v k))"

text \<open>\<open>Object.values(v)\<close> for a non-null object.\<close>

definition Object_values :: "heap \<Rightarrow> jsval \<Rightarrow> jsval list" where
  "Object_values h v = (if is_ref v then map snd (h (addr_of v)) else [])"

section \<open>Definition validation\<close>

text \<open>
  The definition object handed to \<open>DapiClientMixin\<close>, after destructuring: an absent
  field reads as \<open>undefined\<close>.
\<close>

record dapi_definition =
  def_close :: jsval
  def_isHealthy :: jsval
  def_dependencies :: jsval
  def_fns :: jsval
  def_type :: jsval

text \<open>
  \<open>validateDefinition\<close> of \<open>src/DapiClientMixin.ts\<close>, the variant that keeps the lifecycle
  status in a closure variable. A thrown error is \<open>Inl\<close>.
\<close>

definition validateDefinition :: "heap \<Rightarrow> dapi_definition \<Rightarrow> error + unit" where
  "validateDefinition h d =
     (let c = def_close d; ih = def_isHealthy d;
          dependencies = def_dependencies d; fns = def_fns d in
      if truthy c \<and> typeof c \<noteq> TFunction then
        Inl (TypeError ''close must be a function'')
      else if truthy ih \<and> typeof ih \<noteq> TFunction then
        Inl (TypeError ''isHealthy must be a function'')
      else if \<not> truthy dependencies then
        Inl (TypeError ''Definition must have dependencies'')
      else if truthy (prop_of h dependencies ''close'')
              \<or> truthy (prop_of h dependencies ''isHealthy'') then
        Inl (TypeError (''Dependencies cannot have a `close` or `isHealthy` properties.'' @ [CHR 0x0A]
               @ ''Please remove them from the dependencies object.''))
      else if \<not> truthy (prop_of h dependencies ''client'') then
        Inl (TypeError ''Dependencies must have a client'')
      else if typeof fns \<noteq> TObject \<or> fns = JNull then
        Inl (TypeError ''Definition must have a dictionary (`fns`) of Dapi functions'')
      else if list_ex (\<lambda>fn. typeof fn \<noteq> TFunction) (Object_values h fns) then
        Inl (TypeError ''Definition's fns dictionary must only contain values of type fn'')
      else Inr ())"

text \<open>
  \<open>validateDefinition\<close> of the variant that embeds the status in the dependency bundle
  (\<open>unnamed/part_002\<close>). It reads \<open>dependencies.close\<close> without a guard, so an absent
  bundle raises the engine's own \<open>TypeError\<close>.
\<close>

definition validateDefinition_bundled :: "heap \<Rightarrow> dapi_definition \<Rightarrow> error + unit" where
  "validateDefinition_bundled h d =
     (let c = def_close d; ih = def_isHealthy d; dependencies = def_dependencies d in
      if truthy c \<and> typeof c \<noteq> TFunction then
        Inl (TypeError ''close must be a function'')
      else if truthy ih \<and> typeof ih \<noteq> TFunction then
        Inl (TypeError ''isHealthy must be a function'')
      else
        (case get_prop h dependencies ''close'' of
           Inl e \<Rightarrow> Inl e
         | Inr _ \<Rightarrow>
             if truthy (prop_of h dependencies ''close'')
                \<or> truthy (prop_of h dependencies ''isHealthy'')
                \<or> truthy (prop_of h dependencies ''status'') then
               Inl (TypeError (''Dependencies cannot have a `close` or `isHealthy` or `status` property.''
                 @ [CHR 0x0A] @ ''Please remove it from the dependencies.''))
             else Inr ()))"

section \<open>The lifecycle controller of \<open>src/DapiClientMixin.ts\<close>\<close>

datatype ClientStatus = OPEN | CLOSED | CLOSING

text \<open>
  User-supplied functions (the \<open>close\<close> and \<open>isHealthy\<close> overrides, the commands in
  \<open>fns\<close>) are arbitrary JavaScript. A call is modelled by its completion: the function
  value, the lifecycle status it can observe through \<open>this.status()\<close> when it starts,
  and its arguments give either a thrown error or a returned value (possibly a promise).
  Re-entrant calls from inside a user function are not modelled.
\<close>

type_synonym user_code = "jsval \<Rightarrow> ClientStatus \<Rightarrow> jsval list \<Rightarrow> error + jsval"

text \<open>A record of each invocation of a user-supplied function, kept for specification only.\<close>

datatype invocation =
    CloseCall ClientStatus jsval jsval
  | HealthCall ClientStatus jsval
  | FnsCall string ClientStatus "jsval list"

fun is_CloseCall :: "invocation \<Rightarrow> bool" where
  "is_CloseCall (CloseCall st deps delay) = True"
| "is_CloseCall i = False"

fun is_FnsCall :: "invocation \<Rightarrow> bool" where
  "is_FnsCall (FnsCall k st args) = True"
| "is_FnsCall i = False"

text \<open>
  The variables captured by the closures \<open>close\<close>, \<open>status\<close> and \<open>isHealthy\<close> that one
  call of \<open>DapiClientMixin\<close> creates: \<open>let _status\<close>, together with the promises on which
  \<open>close\<close> has registered its \<open>then\<close> callback and that have not settled yet.
\<close>

record closure =
  status_var :: ClientStatus
  reactions :: "nat list"
  calls :: "invocation list"

text \<open>What \<open>close\<close> returns: \<open>undefined\<close>, or the promise \<open>response.then(...)\<close>.\<close>

datatype close_ret = RetUndefined | RetThen nat

text \<open>
  \<open>close\<close>. The parameter \<open>{delay} = {}\<close> is represented by the destructured
  \<open>delay\<close> (\<open>undefined\<close> when the caller passes no options); the options object
  \<open>{delay}\<close> handed to the override is represented by \<open>delay\<close> as well.
\<close>

definition close :: "user_code \<Rightarrow> dapi_definition \<Rightarrow> jsval \<Rightarrow> jsval \<Rightarrow> closure
    \<Rightarrow> (error + close_ret) \<times> closure" where
  "close uc d deps delay s =
     (if status_var s \<noteq> OPEN then (Inr RetUndefined, s)
      else if typeof (def_close d) = TFunction then
        (let s1 = s\<lparr>status_var := CLOSING\<rparr>;
             s2 = s1\<lparr>calls := calls s1 @ [CloseCall (status_var s1) deps delay]\<rparr> in
         case uc (def_close d) (status_var s1) [deps, delay] of
           Inl e \<Rightarrow> (Inl e, s2)
         | Inr response \<Rightarrow>
             if instanceof_Promise response then
               (Inr (RetThen (addr_of response)),
                s2\<lparr>reactions := reactions s2 @ [addr_of response]\<rparr>)
             else (Inr RetUndefined, s2\<lparr>status_var := CLOSED\<rparr>))
      else (Inr RetUndefined, s\<lparr>status_var := CLOSED\<rparr>))"

text \<open>
  The settlement of a promise on which \<open>close\<close> registered \<open>() => { _status = CLOSED }\<close>.
  When the promise fulfils the callback runs and the promise returned by \<open>close\<close> fulfils
  with \<open>undefined\<close>; when it rejects the callback is skipped and the returned promise
  rejects with the same reason. The result is the settlement of the returned promise.
\<close>

datatype settlement = Fulfilled jsval | Rejected error

definition settle :: "nat \<Rightarrow> settlement \<Rightarrow> closure \<Rightarrow> settlement option \<times> closure" where
  "settle p outcome s =
     (if p \<in> set (reactions s) then
        (case outcome of
           Fulfilled v \<Rightarrow>
             (Some (Fulfilled JUndefined),
              s\<lparr>status_var := CLOSED, reactions := removeAll p (reactions s)\<rparr>)
         | Rejected e \<Rightarrow>
             (Some (Rejected e), s\<lparr>reactions := removeAll p (reactions s)\<rparr>))
      else (None, s))"

text \<open>\<open>status\<close>.\<close>

definition status :: "closure \<Rightarrow> ClientStatus" where
  "status s = status_var s"

text \<open>\<open>isHealthy\<close>.\<close>

definition isHealthy :: "user_code \<Rightarrow> dapi_definition \<Rightarrow> jsval \<Rightarrow> closure
    \<Rightarrow> (error + jsval) \<times> closure" where
  "isHealthy uc d deps s =
     (if status_var s \<noteq> OPEN then (Inr (JBool False), s)
      else if typeof (def_isHealthy d) = TFunction then
        (uc (def_isHealthy d) (status_var s) [deps],
         s\<lparr>calls := calls s @ [HealthCall (status_var s) deps]\<rparr>)
      else (Inr (JBool True), s))"

text \<open>
  The dictionary \<open>{...definition.fns, close, isHealthy, status}\<close> handed to \<open>DapiMixin\<close>:
  an entry is a function of the user or one of the three closures above.
\<close>

datatype dapi_fn = UserFn jsval | SynthClose | SynthIsHealthy | SynthStatus

definition merged_fns :: "heap \<Rightarrow> dapi_definition \<Rightarrow> (string \<times> dapi_fn) list" where
  "merged_fns h d =
     AList.update ''status'' SynthStatus
       (AList.update ''isHealthy'' SynthIsHealthy
          (AList.update ''close'' SynthClose
             (map (\<lambda>(k, v). (k, UserFn v))
                (if is_ref (def_fns d) then h (addr_of (def_fns d)) else []))))"

record merged_definition =
  m_definition :: dapi_definition
  m_dependencies :: jsval
  m_fns :: "(string \<times> dapi_fn) list"

text \<open>
  \<open>DapiClientMixin\<close>. \<open>DapiMixin\<close> belongs to the package \<open>@carpasse/dapi\<close> and is a
  parameter: it receives the merged definition and returns a class or throws. The result
  pairs that class with the freshly created closure variables.
\<close>

definition DapiClientMixin :: "(merged_definition \<Rightarrow> error + 'c) \<Rightarrow> heap \<Rightarrow> dapi_definition
    \<Rightarrow> error + ('c \<times> closure)" where
  "DapiClientMixin DapiMixin h d =
     (case validateDefinition h d of
        Inl e \<Rightarrow> Inl e
      | Inr u \<Rightarrow>
          (let s = \<lparr>status_var = OPEN, reactions = [], calls = []\<rparr> in
           case DapiMixin \<lparr>m_definition = d, m_dependencies = def_dependencies d,
                           m_fns = merged_fns h d\<rparr> of
             Inl e \<Rightarrow> Inl e
           | Inr cls \<Rightarrow> Inr (cls, s)))"

subsection \<open>The facade around the closures\<close>

text \<open>
  Modelled from the spec: the class that \<open>DapiMixin\<close> of \<open>@carpasse/dapi\<close> returns is not
  part of the sources. Following sections 2, 4.4 and 6 of the specification, an instance
  holds a dependency store seeded with the bundle of the definition, and calling the
  method \<open>name\<close> invokes the function registered under \<open>name\<close> with the current bundle
  as first argument, followed by the caller's arguments. Decorators and hooks are left out.
  Neither the constructor nor the store can reach the closure variables.
\<close>

record facade_instance =
  i_dependencies :: jsval

definition new_instance :: "merged_definition \<Rightarrow> closure \<Rightarrow> facade_instance \<times> closure" where
  "new_instance md s = (\<lparr>i_dependencies = m_dependencies md\<rparr>, s)"

text \<open>Binding of the parameter \<open>{delay} = {}\<close> of \<open>close\<close> to the first argument.\<close>

fun bind_delay :: "heap \<Rightarrow> jsval list \<Rightarrow> error + jsval" where
  "bind_delay h [] = Inr JUndefined"
| "bind_delay h (JUndefined # args) = Inr JUndefined"
| "bind_delay h (JNull # args) = Inl (TypeError ''Cannot destructure property delay of null'')"
| "bind_delay h (opts # args) = Inr (prop_of h opts ''delay'')"

datatype ret = RClose close_ret | RValue jsval | RStatus ClientStatus

definition invoke :: "user_code \<Rightarrow> heap \<Rightarrow> merged_definition \<Rightarrow> facade_instance \<Rightarrow> string
    \<Rightarrow> jsval list \<Rightarrow> closure \<Rightarrow> (error + ret) \<times> closure" where
  "invoke uc h md i name args s =
     (case map_of (m_fns md) name of
        None \<Rightarrow> (Inl (TypeError (name @ '' is not a function'')), s)
      | Some SynthClose \<Rightarrow>
          (case bind_delay h args of
             Inl e \<Rightarrow> (Inl e, s)
           | Inr delay \<Rightarrow>
               (case close uc (m_definition md) (i_dependencies i) delay s of
                  (Inl e, s') \<Rightarrow> (Inl e, s')
                | (Inr r, s') \<Rightarrow> (Inr (RClose r), s')))
      | Some SynthIsHealthy \<Rightarrow>
          (case isHealthy uc (m_definition md) (i_dependencies i) s of
             (Inl e, s') \<Rightarrow> (Inl e, s')
           | (Inr v, s') \<Rightarrow> (Inr (RValue v), s'))
      | Some SynthStatus \<Rightarrow> (Inr (RStatus (status s)), s)
      | Some (UserFn f) \<Rightarrow>
          (case uc f (status_var s) (i_dependencies i # args) of
             Inl e \<Rightarrow> (Inl e, s\<lparr>calls := calls s @ [FnsCall name (status_var s) args]\<rparr>)
           | Inr v \<Rightarrow> (Inr (RValue v), s\<lparr>calls := calls s @ [FnsCall name (status_var s) args]\<rparr>)))"

subsection \<open>Histories\<close>

text \<open>
  Everything that can happen to the closure variables after \<open>DapiClientMixin\<close> returned:
  calls of the three lifecycle operations (from any instance of the class), calls of
  a user command, the construction of a further instance, and the settlement of a
  promise by the JavaScript runtime.
\<close>

datatype event =
    EvClose jsval jsval
  | EvIsHealthy jsval
  | EvStatus
  | EvCommand string "jsval list"
  | EvNew
  | EvSettle nat settlement

fun step :: "user_code \<Rightarrow> dapi_definition \<Rightarrow> event \<Rightarrow> closure \<Rightarrow> closure" where
  "step uc d (EvClose deps delay) s = snd (close uc d deps delay s)"
| "step uc d (EvIsHealthy deps) s = snd (isHealthy uc d deps s)"
| "step uc d EvStatus s = s"
| "step uc d (EvCommand k args) s = s\<lparr>calls := calls s @ [FnsCall k (status_var s) args]\<rparr>"
| "step uc d EvNew s = s"
| "step uc d (EvSettle p outcome) s = snd (settle p outcome s)"

fun run :: "user_code \<Rightarrow> dapi_definition \<Rightarrow> event list \<Rightarrow> closure \<Rightarrow> closure" where
  "run uc d [] s = s"
| "run uc d (e # es) s = run uc d es (step uc d e s)"

definition initial :: closure where
  "initial = \<lparr>status_var = OPEN, reactions = [], calls = []\<rparr>"

fun closes :: "event \<Rightarrow> bool" where
  "closes (EvClose deps delay) = True"
| "closes e = False"

fun settles :: "nat \<Rightarrow> event \<Rightarrow> bool" where
  "settles p (EvSettle q outcome) = (p = q)"
| "settles p e = False"

fun rank :: "ClientStatus \<Rightarrow> nat" where
  "rank OPEN = 0"
| "rank CLOSING = 1"
| "rank CLOSED = 2"

section \<open>The dependency store accessors of the class variant\<close>

text \<open>
  \<open>unnamed/part_001\<close> defines the lifecycle as a class \<open>DapiClientWrapper\<close> that extends the
  class returned by \<open>DapiMixin\<close>. Its state is the private field \<open>_status\<close> and the
  bundle reference kept by the superclass.

  Modelled from the spec: \<open>getDependencies\<close> and the inherited \<open>setDependencies\<close> belong to
  \<open>@carpasse/dapi\<close>. Following section 4.2, \<open>get\<close> returns the current bundle and \<open>set\<close>
  replaces it wholesale.
\<close>

record wrapper =
  w_status :: ClientStatus
  w_dependencies :: jsval

definition getDependencies :: "wrapper \<Rightarrow> jsval" where
  "getDependencies w = w_dependencies w"

definition super_setDependencies :: "jsval \<Rightarrow> wrapper \<Rightarrow> wrapper" where
  "super_setDependencies newDeps w = w\<lparr>w_dependencies := newDeps\<rparr>"

text \<open>
  Property write \<open>v.k = x\<close> in strict mode (class bodies are strict). It raises a
  \<open>TypeError\<close> on \<open>undefined\<close>, \<open>null\<close> and on primitives. On an object it raises a
  \<open>TypeError\<close> when the object refuses the write: \<open>k\<close> is a non-writable property of
  it, or \<open>k\<close> is absent and the object is not extensible (\<open>Object.freeze\<close> puts every
  key of an object in this state). Otherwise it updates the object in place.

  Which writes an object refuses is given by a predicate on addresses and keys. The code
  under verification never freezes, seals or redefines a property, so the predicate is the
  same before and after each of its operations and is passed as a parameter. Accessor
  properties and proxies are not modelled: bundles are plain data objects.
\<close>

type_synonym protection = "nat \<Rightarrow> string \<Rightarrow> bool"

definition set_prop :: "protection \<Rightarrow> heap \<Rightarrow> jsval \<Rightarrow> string \<Rightarrow> jsval \<Rightarrow> error + heap" where
  "set_prop readonly h v k x =
     (if is_ref v then
        (if readonly (addr_of v) k then
           Inl (TypeError ''Cannot assign to read only property'')
         else Inr (h(addr_of v := AList.update k x (h (addr_of v)))))
      else Inl (TypeError ''Cannot set property''))"

text \<open>\<open>getClient\<close>: \<open>this.getDependencies()?.client\<close>.\<close>

definition getClient :: "heap \<Rightarrow> wrapper \<Rightarrow> jsval" where
  "getClient h w =
     (if nullish (getDependencies w) then JUndefined
      else prop_of h (getDependencies w) ''client'')"

text \<open>\<open>setClient\<close>.\<close>

definition setClient :: "protection \<Rightarrow> jsval \<Rightarrow> heap \<times> wrapper
    \<Rightarrow> (error + unit) \<times> heap \<times> wrapper" where
  "setClient readonly newClient hw =
     (case hw of (h, w) \<Rightarrow>
        if \<not> truthy newClient then (Inl (TypeError ''Client cannot be falsy''), h, w)
        else
          (let dependencies = getDependencies w in
           if strict_eq (if nullish dependencies then JUndefined
                         else prop_of h dependencies ''client'') newClient
           then (Inr (), h, w)
           else
             (case set_prop readonly h dependencies ''client'' newClient of
                Inl e \<Rightarrow> (Inl e, h, w)
              | Inr h' \<Rightarrow> (Inr (), h', w))))"

text \<open>\<open>setDependencies\<close>.\<close>

definition setDependencies :: "jsval \<Rightarrow> heap \<times> wrapper \<Rightarrow> (error + unit) \<times> heap \<times> wrapper" where
  "setDependencies newDeps hw =
     (case hw of (h, w) \<Rightarrow>
        if \<not> truthy newDeps then (Inl (TypeError ''Dependencies must be defined''), h, w)
        else if \<not> truthy (prop_of h newDeps ''client'') then
          (Inl (TypeError ''Dependencies must have a client''), h, w)
        else
          (let dependencies = getDependencies w in
           if strict_eq dependencies newDeps then (Inr (), h, w)
           else (Inr (), h, super_setDependencies newDeps w)))"

text \<open>
  The store operation \<open>update(partial)\<close> as section 4.2 of the specification words it,
  for comparison with \<open>setClient\<close>: the shallow merge \<open>{...current, ...partial}\<close> is
  written to a new object at address \<open>fresh\<close>, the store is pointed to it, and the
  previous bundle object is left as it was.
\<close>

definition shallow_merge :: "props \<Rightarrow> props \<Rightarrow> props" where
  "shallow_merge base partial = foldl (\<lambda>ps (k, v). AList.update k v ps) base partial"

definition update_spec :: "nat \<Rightarrow> props \<Rightarrow> heap \<times> wrapper \<Rightarrow> heap \<times> wrapper" where
  "update_spec fresh partial hw =
     (case hw of (h, w) \<Rightarrow>
        (h(fresh := shallow_merge (h (addr_of (getDependencies w))) partial),
         super_setDependencies (JObj fresh) w))"

section \<open>Vocabulary of the statements\<close>

text \<open>A computation that ends by throwing a \<open>TypeError\<close>.\<close>

definition throws_TypeError :: "error + 'a \<Rightarrow> bool" where
  "throws_TypeError r = (case r of Inl e \<Rightarrow> is_TypeError e | Inr x \<Rightarrow> False)"

text \<open>
  The events through which \<open>close\<close> acts on the status: a call of \<open>close\<close> itself, and the
  fulfilment of a promise on which \<open>close\<close> has registered its callback.
\<close>

fun is_close_event :: "closure \<Rightarrow> event \<Rightarrow> bool" where
  "is_close_event s (EvClose deps delay) = True"
| "is_close_event s (EvSettle p (Fulfilled v)) = (p \<in> set (reactions s))"
| "is_close_event s e = False"

text \<open>How often the user-supplied close function has been invoked.\<close>

definition close_calls :: "closure \<Rightarrow> nat" where
  "close_calls s = length (filter is_CloseCall (calls s))"

text \<open>The invariant of the closure variables along every history.\<close>

definition consistent :: "closure \<Rightarrow> bool" where
  "consistent s =
     (case status_var s of
        OPEN \<Rightarrow> reactions s = [] \<and> close_calls s = 0
      | CLOSING \<Rightarrow> length (reactions s) \<le> 1 \<and> close_calls s = 1
      | CLOSED \<Rightarrow> reactions s = [] \<and> close_calls s \<le> 1)"

section \<open>Sample definitions, bundles and user functions\<close>

text \<open>
  The fixture of the test suite: a bundle \<open>{client, opts}\<close> at address 1, a dictionary
  \<open>{command1}\<close> at address 2 and the empty object \<open>{}\<close> at address 3.
\<close>

definition empty_heap :: heap where
  "empty_heap = (\<lambda>a. [])"

definition ex_heap :: heap where
  "ex_heap = empty_heap
     (1 := [(''client'', JObj 10), (''opts'', JObj 11)],
      2 := [(''command1'', JFun 20)],
      3 := [])"

definition ex_definition :: dapi_definition where
  "ex_definition = \<lparr>def_close = JUndefined, def_isHealthy = JUndefined,
     def_dependencies = JObj 1, def_fns = JObj 2, def_type = JStr ''test''\<rparr>"

definition ex_merged :: merged_definition where
  "ex_merged = \<lparr>m_definition = ex_definition, m_dependencies = JObj 1,
     m_fns = [(''command1'', UserFn (JFun 20)), (''close'', SynthClose),
              (''isHealthy'', SynthIsHealthy), (''status'', SynthStatus)]\<rparr>"

text \<open>Bundles that carry a lifecycle key.\<close>

definition heap_status_key :: heap where
  "heap_status_key = empty_heap
     (1 := [(''client'', JObj 10), (''status'', JStr ''open'')],
      2 := [(''command1'', JFun 20)])"

definition heap_falsy_close :: heap where
  "heap_falsy_close = empty_heap
     (1 := [(''client'', JObj 10), (''close'', JNum 0)],
      2 := [(''command1'', JFun 20)])"

definition heap_close_key :: heap where
  "heap_close_key = empty_heap
     (1 := [(''client'', JObj 10), (''close'', JFun 21)],
      2 := [(''command1'', JFun 20)])"

definition heap_only_status :: heap where
  "heap_only_status = empty_heap
     (1 := [(''status'', JStr ''open'')],
      2 := [(''command1'', JFun 20)])"

text \<open>
  User functions: function 30 returns the promise 40, function 31 throws, function 32
  returns \<open>true\<close>, function 33 returns the object 60, which has a \<open>then\<close> method but is
  not an instance of \<open>Promise\<close>, and every other function returns \<open>undefined\<close>.
\<close>

definition ex_code :: user_code where
  "ex_code f st args =
     (if f = JFun 30 then Inr (JPromise 40)
      else if f = JFun 31 then Inl (Thrown (JStr ''Failed to close''))
      else if f = JFun 32 then Inr (JBool True)
      else if f = JFun 33 then Inr (JObj 60)
      else Inr JUndefined)"

definition def_close_pending :: dapi_definition where
  "def_close_pending = ex_definition\<lparr>def_close := JFun 30\<rparr>"


definition def_healthy :: dapi_definition where
  "def_healthy = ex_definition\<lparr>def_isHealthy := JFun 32\<rparr>"

definition def_healthy_sync_close :: dapi_definition where
  "def_healthy_sync_close = ex_definition\<lparr>def_close := JFun 32, def_isHealthy := JFun 32\<rparr>"

definition def_healthy_pending :: dapi_definition where
  "def_healthy_pending = ex_definition\<lparr>def_isHealthy := JFun 30\<rparr>"

definition def_close_thenable :: dapi_definition where
  "def_close_thenable = ex_definition\<lparr>def_close := JFun 33\<rparr>"

definition merged_pending :: merged_definition where
  "merged_pending = \<lparr>m_definition = def_close_pending, m_dependencies = JObj 1,
     m_fns = [(''command1'', UserFn (JFun 20)), (''close'', SynthClose),
              (''isHealthy'', SynthIsHealthy), (''status'', SynthStatus)]\<rparr>"

definition closing_state :: closure where
  "closing_state = \<lparr>status_var = CLOSING, reactions = [40],
     calls = [CloseCall CLOSING (JObj 1) JUndefined]\<rparr>"

definition closed_state :: closure where
  "closed_state = \<lparr>status_var = CLOSED, reactions = [], calls = []\<rparr>"

definition ex_wrapper :: wrapper where
  "ex_wrapper = \<lparr>w_status = OPEN, w_dependencies = JObj 1\<rparr>"

text \<open>Plain objects, which accept every write, and a heap whose bundle 1 is frozen.\<close>

definition plain_objects :: protection where
  "plain_objects a k = False"

definition bundle_frozen :: protection where
  "bundle_frozen a k = (a = 1)"

section \<open>Auxiliary lemmas\<close>

lemma own_simps:
  "own [] k = JUndefined"
  "own ((k', v) # ps) k = (if k' = k then v else own ps k)"
  by (auto simp: own_def)

lemma own_update:
  "own (AList.update k v ps) k' = (if k' = k then v else own ps k')"
  by (simp add: own_def update_conv')

lemma values_update:
  "set (map snd (AList.update k v ps)) \<subseteq> insert v (set (map snd ps))"
  by (induction ps) auto

lemma validateDefinition_ok_iff:
  "validateDefinition h d = Inr () \<longleftrightarrow>
     (truthy (def_close d) \<longrightarrow> typeof (def_close d) = TFunction)
     \<and> (truthy (def_isHealthy d) \<longrightarrow> typeof (def_isHealthy d) = TFunction)
     \<and> truthy (def_dependencies d)
     \<and> \<not> truthy (prop_of h (def_dependencies d) ''close'')
     \<and> \<not> truthy (prop_of h (def_dependencies d) ''isHealthy'')
     \<and> truthy (prop_of h (def_dependencies d) ''client'')
     \<and> typeof (def_fns d) = TObject \<and> def_fns d \<noteq> JNull
     \<and> \<not> list_ex (\<lambda>fn. typeof fn \<noteq> TFunction) (Object_values h (def_fns d))"
  by (auto simp: validateDefinition_def Let_def)

subsection \<open>The branches of \<open>close\<close>\<close>

lemma close_not_open:
  "status_var s \<noteq> OPEN \<Longrightarrow> close uc d deps delay s = (Inr RetUndefined, s)"
  by (simp add: close_def)

lemma close_without_override:
  "status_var s = OPEN \<Longrightarrow> typeof (def_close d) \<noteq> TFunction \<Longrightarrow>
   close uc d deps delay s = (Inr RetUndefined, s\<lparr>status_var := CLOSED\<rparr>)"
  by (simp add: close_def)


lemma close_override_promise:
  "status_var s = OPEN \<Longrightarrow> typeof (def_close d) = TFunction \<Longrightarrow>
   uc (def_close d) CLOSING [deps, delay] = Inr (JPromise p) \<Longrightarrow>
   close uc d deps delay s =
     (Inr (RetThen p), s\<lparr>status_var := CLOSING, calls := calls s @ [CloseCall CLOSING deps delay],
        reactions := reactions s @ [p]\<rparr>)"
  by (simp add: close_def)

lemma close_override_value:
  "status_var s = OPEN \<Longrightarrow> typeof (def_close d) = TFunction \<Longrightarrow>
   uc (def_close d) CLOSING [deps, delay] = Inr v \<Longrightarrow> \<not> instanceof_Promise v \<Longrightarrow>
   close uc d deps delay s =
     (Inr RetUndefined, s\<lparr>calls := calls s @ [CloseCall CLOSING deps delay], status_var := CLOSED\<rparr>)"
  by (simp add: close_def)

lemma instanceof_Promise_iff: "instanceof_Promise v \<longleftrightarrow> (\<exists>p. v = JPromise p)"
  by (cases v) auto

lemma consistent_initial: "consistent initial"
  by (simp add: consistent_def initial_def close_calls_def)

lemma consistent_close: "consistent s \<Longrightarrow> consistent (snd (close uc d deps delay s))"
  by (auto simp: consistent_def close_def close_calls_def Let_def split: ClientStatus.splits sum.splits)

lemma consistent_step: "consistent s \<Longrightarrow> consistent (step uc d e s)"
proof (cases e)
  case (EvClose deps delay)
  assume "consistent s"
  then show ?thesis using EvClose by (simp add: consistent_close)
next
  case (EvIsHealthy deps)
  assume "consistent s"
  then show ?thesis using EvIsHealthy
    by (auto simp: consistent_def isHealthy_def close_calls_def split: ClientStatus.splits)
next
  case (EvSettle p outcome)
  assume "consistent s"
  then show ?thesis using EvSettle
    by (cases outcome)
       (auto simp: consistent_def settle_def close_calls_def length_Suc_conv le_Suc_eq split: ClientStatus.splits)
qed (auto simp: consistent_def close_calls_def split: ClientStatus.splits)

lemma consistent_run: "consistent s \<Longrightarrow> consistent (run uc d evs s)"
  by (induction evs arbitrary: s) (simp_all add: consistent_step)

lemma reachable_open:
  assumes "s = run uc d pre initial" and "status_var s = OPEN"
  shows "reactions s = []" and "close_calls s = 0"
  using consistent_run [OF consistent_initial, of uc d pre] assms
  by (simp_all add: consistent_def)



lemma pending_step:
  "status_var s = CLOSING \<Longrightarrow> reactions s = [p] \<Longrightarrow> \<not> settles p e \<Longrightarrow>
   status_var (step uc d e s) = CLOSING \<and> reactions (step uc d e s) = [p]"
  by (cases e) (auto simp: close_def isHealthy_def settle_def)

lemma pending_run:
  "status_var s = CLOSING \<Longrightarrow> reactions s = [p] \<Longrightarrow> list_all (\<lambda>e. \<not> settles p e) evs \<Longrightarrow>
   status_var (run uc d evs s) = CLOSING \<and> reactions (run uc d evs s) = [p]"
  by (induction evs arbitrary: s) (simp_all add: pending_step)

lemma not_open_step:
  "status_var s \<noteq> OPEN \<Longrightarrow>
   status_var (step uc d e s) \<noteq> OPEN \<and> close_calls (step uc d e s) = close_calls s"
  by (cases e) (auto simp: close_def isHealthy_def settle_def close_calls_def split: settlement.splits)

lemma not_open_run_status:
  "status_var s \<noteq> OPEN \<Longrightarrow> status_var (run uc d evs s) \<noteq> OPEN"
  by (induction evs arbitrary: s) (simp_all add: not_open_step)

lemma close_result:
  "status_var s = OPEN \<Longrightarrow> typeof (def_close d) = TFunction \<Longrightarrow>
   fst (close uc d deps delay s) =
     (case uc (def_close d) CLOSING [deps, delay] of
        Inl e \<Rightarrow> Inl e
      | Inr r \<Rightarrow> if instanceof_Promise r then Inr (RetThen (addr_of r)) else Inr RetUndefined)"
  by (simp add: close_def Let_def split: sum.splits)

lemma not_open_run:
  "status_var s \<noteq> OPEN \<Longrightarrow> close_calls (run uc d evs s) = close_calls s"
  by (induction evs arbitrary: s) (simp_all add: not_open_step)

lemma rank_step: "rank (status_var s) \<le> rank (status_var (step uc d e s))"
  by (cases e; cases "status_var s")
     (auto simp: close_def isHealthy_def settle_def Let_def split: settlement.splits sum.splits)

lemma rank_run: "rank (status_var s) \<le> rank (status_var (run uc d evs s))"
proof (induction evs arbitrary: s)
  case Nil
  show ?case by simp
next
  case (Cons e es)
  have "rank (status_var s) \<le> rank (status_var (step uc d e s))" by (rule rank_step)
  also have "\<dots> \<le> rank (status_var (run uc d es (step uc d e s)))" by (rule Cons.IH)
  finally show ?case by simp
qed

lemma open_step:
  "status_var s = OPEN \<Longrightarrow> reactions s = [] \<Longrightarrow> \<not> closes e \<Longrightarrow>
   status_var (step uc d e s) = OPEN \<and> reactions (step uc d e s) = []"
  by (cases e) (auto simp: isHealthy_def settle_def)

lemma open_run:
  "status_var s = OPEN \<Longrightarrow> reactions s = [] \<Longrightarrow> list_all (\<lambda>e. \<not> closes e) evs \<Longrightarrow>
   status_var (run uc d evs s) = OPEN"
  by (induction evs arbitrary: s) (simp_all add: open_step)

lemma closed_step: "status_var s = CLOSED \<Longrightarrow> status_var (step uc d e s) = CLOSED"
  by (cases e) (auto simp: close_def isHealthy_def settle_def split: settlement.splits)

lemma closed_run: "status_var s = CLOSED \<Longrightarrow> status_var (run uc d evs s) = CLOSED"
  by (induction evs arbitrary: s) (simp_all add: closed_step)

lemma status_change_step:
  "status_var (step uc d e s) \<noteq> status_var s \<Longrightarrow> is_close_event s e"
  by (cases e) (auto simp: isHealthy_def settle_def split: settlement.splits if_splits)

subsection \<open>Dispatch through the merged dictionary\<close>

lemma merged_fns_reserved:
  "map_of (merged_fns h d) ''close'' = Some SynthClose"
  "map_of (merged_fns h d) ''isHealthy'' = Some SynthIsHealthy"
  "map_of (merged_fns h d) ''status'' = Some SynthStatus"
  by (simp_all add: merged_fns_def update_conv')

lemma close_keeps_FnsCalls:
  "filter is_FnsCall (calls (snd (close uc d deps delay s))) = filter is_FnsCall (calls s)"
  by (simp add: close_def Let_def split: sum.splits)

lemma isHealthy_keeps_FnsCalls:
  "filter is_FnsCall (calls (snd (isHealthy uc d deps s))) = filter is_FnsCall (calls s)"
  by (simp add: isHealthy_def)

lemma invoke_close:
  "map_of (m_fns md) ''close'' = Some SynthClose \<Longrightarrow>
   snd (invoke uc h md i ''close'' args s) =
     (case bind_delay h args of
        Inl e \<Rightarrow> s
      | Inr delay \<Rightarrow> snd (close uc (m_definition md) (i_dependencies i) delay s))"
  by (simp add: invoke_def split: sum.splits prod.splits)

lemma invoke_isHealthy:
  "map_of (m_fns md) ''isHealthy'' = Some SynthIsHealthy \<Longrightarrow>
   snd (invoke uc h md i ''isHealthy'' args s) =
     snd (isHealthy uc (m_definition md) (i_dependencies i) s)"
  by (simp add: invoke_def split: sum.splits prod.splits)

lemma invoke_status:
  "map_of (m_fns md) ''status'' = Some SynthStatus \<Longrightarrow>
   invoke uc h md i ''status'' args s = (Inr (RStatus (status s)), s)"
  by (simp add: invoke_def)

lemma invoke_reserved_keeps_FnsCalls:
  assumes "m_fns md = merged_fns h d"
    and "name = ''close'' \<or> name = ''isHealthy'' \<or> name = ''status''"
  shows "filter is_FnsCall (calls (snd (invoke uc h' md i name args s)))
          = filter is_FnsCall (calls s)"
proof -
  consider "name = ''close''" | "name = ''isHealthy''" | "name = ''status''"
    using assms(2) by blast
  then show ?thesis
  proof cases
    case 1
    then show ?thesis
      by (simp add: invoke_close assms(1) merged_fns_reserved close_keeps_FnsCalls
          split: sum.splits)
  next
    case 2
    then show ?thesis
      by (simp add: invoke_isHealthy assms(1) merged_fns_reserved isHealthy_keeps_FnsCalls)
  next
    case 3
    then show ?thesis
      by (simp add: invoke_status assms(1) merged_fns_reserved)
  qed
qed

section \<open>Claims about definition validation\<close>

text \<open>
  Against C1 as worded. A bundle \<open>{client, status: 'open'}\<close> passes \<open>validateDefinition\<close> of
  \<open>src/DapiClientMixin.ts\<close>, which tests \<open>close\<close> and \<open>isHealthy\<close> only, and
  \<open>DapiClientMixin\<close> hands the merged definition to \<open>DapiMixin\<close>; a bundle
  \<open>{client, close: 0}\<close> passes both variants, because the test is on the truthiness of
  the value and not on the presence of the key.
\<close>

theorem C1_counterexample:
  "validateDefinition heap_status_key ex_definition = Inr ()
   \<and> DapiClientMixin Inr heap_status_key ex_definition = Inr (ex_merged, initial)
   \<and> validateDefinition heap_falsy_close ex_definition = Inr ()
   \<and> validateDefinition_bundled heap_falsy_close ex_definition = Inr ()"
  by (simp add: validateDefinition_def validateDefinition_bundled_def DapiClientMixin_def
      heap_status_key_def heap_falsy_close_def ex_definition_def ex_merged_def initial_def
      empty_heap_def prop_of_def own_simps Object_values_def get_prop_def nullish_def
      merged_fns_def)

text \<open>
  C1 (amended): for every definition whose dependency bundle holds a truthy value under
  \<open>close\<close> or \<open>isHealthy\<close>, \<open>validateDefinition\<close> of either variant and \<open>DapiClientMixin\<close>
  throw a \<open>TypeError\<close>, so no class and no instance is produced; the variant that keeps
  the status inside the bundle rejects a truthy \<open>status\<close> in the same way; the variant
  that keeps the status in a closure rejects a bundle whose only key is \<open>status\<close>, since
  such a bundle has no client.
\<close>

theorem C1_reserved_keys_rejected:
  "(truthy (prop_of h (def_dependencies d) ''close'')
     \<or> truthy (prop_of h (def_dependencies d) ''isHealthy'')
    \<longrightarrow> throws_TypeError (validateDefinition h d)
        \<and> throws_TypeError (DapiClientMixin DapiMixin h d)
        \<and> throws_TypeError (validateDefinition_bundled h d))
   \<and> (truthy (prop_of h (def_dependencies d) ''status'')
      \<longrightarrow> throws_TypeError (validateDefinition_bundled h d))
   \<and> (is_ref (def_dependencies d) \<and> map fst (h (addr_of (def_dependencies d))) = [''status'']
      \<longrightarrow> throws_TypeError (validateDefinition h d)
        \<and> throws_TypeError (DapiClientMixin DapiMixin h d))"
  apply (intro conjI impI)
  apply (auto simp: validateDefinition_def validateDefinition_bundled_def DapiClientMixin_def
      throws_TypeError_def Let_def prop_of_def get_prop_def nullish_def own_def
      split: if_splits sum.splits)
  done

theorem C1_reserved_keys_rejected_witness:
  "truthy (prop_of heap_close_key (def_dependencies ex_definition) ''close'')
   \<and> throws_TypeError (validateDefinition heap_close_key ex_definition)
   \<and> throws_TypeError (DapiClientMixin Inr heap_close_key ex_definition)
   \<and> throws_TypeError (validateDefinition_bundled heap_close_key ex_definition)
   \<and> truthy (prop_of heap_status_key (def_dependencies ex_definition) ''status'')
   \<and> throws_TypeError (validateDefinition_bundled heap_status_key ex_definition)
   \<and> is_ref (def_dependencies ex_definition)
   \<and> map fst (heap_only_status (addr_of (def_dependencies ex_definition))) = [''status'']
   \<and> throws_TypeError (validateDefinition heap_only_status ex_definition)
   \<and> throws_TypeError (DapiClientMixin Inr heap_only_status ex_definition)"
  using C1_reserved_keys_rejected [where h = heap_close_key and d = ex_definition
      and DapiMixin = Inr]
    C1_reserved_keys_rejected [where h = heap_status_key and d = ex_definition
      and DapiMixin = Inr]
    C1_reserved_keys_rejected [where h = heap_only_status and d = ex_definition
      and DapiMixin = Inr]
  by (simp add: heap_close_key_def heap_status_key_def heap_only_status_def ex_definition_def
      empty_heap_def prop_of_def own_simps)

text \<open>
  C10: a \<open>fns\<close> dictionary may itself contain entries named \<open>close\<close>, \<open>isHealthy\<close> or
  \<open>status\<close>. Validation does not look at the names in \<open>fns\<close>: adding a function under
  any name to the dictionary of an accepted definition leaves it accepted, and
  \<open>DapiClientMixin\<close> then returns whatever \<open>DapiMixin\<close> makes of the merged definition. In
  the merged dictionary the three names are bound to the synthesized operations whatever
  the user's dictionary holds, and calling one of the three methods never invokes an
  entry of the user's dictionary.
\<close>

theorem C10_fns_reserved_names_replaced:
  "(validateDefinition h d = Inr () \<and> def_fns d = JObj a \<and> addr_of (def_dependencies d) \<noteq> a
      \<and> typeof f = TFunction \<longrightarrow>
      validateDefinition (h(a := AList.update k f (h a))) d = Inr ())
   \<and> (validateDefinition h d = Inr () \<longrightarrow>
        DapiClientMixin DapiMixin h d
          = (case DapiMixin \<lparr>m_definition = d, m_dependencies = def_dependencies d,
                              m_fns = merged_fns h d\<rparr> of
               Inl e \<Rightarrow> Inl e | Inr cls \<Rightarrow> Inr (cls, initial)))
   \<and> map_of (merged_fns h d) ''close'' = Some SynthClose
   \<and> map_of (merged_fns h d) ''isHealthy'' = Some SynthIsHealthy
   \<and> map_of (merged_fns h d) ''status'' = Some SynthStatus
   \<and> (m_fns md = merged_fns h d
        \<and> (name = ''close'' \<or> name = ''isHealthy'' \<or> name = ''status'') \<longrightarrow>
        filter is_FnsCall (calls (snd (invoke uc h' md i name args s)))
          = filter is_FnsCall (calls s))"
proof (intro conjI impI)
  assume a: "validateDefinition h d = Inr () \<and> def_fns d = JObj a
      \<and> addr_of (def_dependencies d) \<noteq> a \<and> typeof f = TFunction"
  then have ok: "validateDefinition h d = Inr ()" and fns: "def_fns d = JObj a"
    and ne: "addr_of (def_dependencies d) \<noteq> a" and tf: "typeof f = TFunction"
    by blast+
  let ?h = "h(a := AList.update k f (h a))"
  have p: "prop_of ?h (def_dependencies d) key = prop_of h (def_dependencies d) key" for key
    using ne by (simp add: prop_of_def)
  have "\<not> list_ex (\<lambda>fn. typeof fn \<noteq> TFunction) (map snd (h a))"
    using ok fns by (simp add: validateDefinition_ok_iff Object_values_def)
  then have "\<not> list_ex (\<lambda>fn. typeof fn \<noteq> TFunction) (map snd (AList.update k f (h a)))"
    using tf values_update [of k f "h a"] unfolding list_ex_iff by blast
  then show "validateDefinition ?h d = Inr ()"
    using ok fns by (simp add: validateDefinition_ok_iff Object_values_def p)
next
  assume "validateDefinition h d = Inr ()"
  then show "DapiClientMixin DapiMixin h d
          = (case DapiMixin \<lparr>m_definition = d, m_dependencies = def_dependencies d,
                              m_fns = merged_fns h d\<rparr> of
               Inl e \<Rightarrow> Inl e | Inr cls \<Rightarrow> Inr (cls, initial))"
    by (simp add: DapiClientMixin_def initial_def split: sum.splits)
next
  assume "m_fns md = merged_fns h d
      \<and> (name = ''close'' \<or> name = ''isHealthy'' \<or> name = ''status'')"
  then show "filter is_FnsCall (calls (snd (invoke uc h' md i name args s)))
          = filter is_FnsCall (calls s)"
    using invoke_reserved_keeps_FnsCalls [of md h d name uc h' i args s] by blast
qed (simp_all add: merged_fns_reserved)

theorem C10_fns_reserved_names_replaced_witness:
  "validateDefinition ex_heap ex_definition = Inr ()
   \<and> def_fns ex_definition = JObj 2
   \<and> addr_of (def_dependencies ex_definition) \<noteq> 2
   \<and> typeof (JFun 21) = TFunction
   \<and> validateDefinition (ex_heap(2 := AList.update ''close'' (JFun 21) (ex_heap 2))) ex_definition
       = Inr ()
   \<and> DapiClientMixin Inr ex_heap ex_definition = Inr (ex_merged, initial)
   \<and> m_fns ex_merged = merged_fns ex_heap ex_definition
   \<and> filter is_FnsCall (calls (snd (invoke ex_code ex_heap ex_merged
        \<lparr>i_dependencies = JObj 1\<rparr> ''close'' [] initial))) = filter is_FnsCall (calls initial)"
  using C10_fns_reserved_names_replaced [where h = ex_heap and d = ex_definition and a = 2
      and f = "JFun 21" and k = "''close''" and DapiMixin = Inr and md = ex_merged
      and name = "''close''" and uc = ex_code and h' = ex_heap
      and i = "\<lparr>i_dependencies = JObj 1\<rparr>" and args = "[]" and s = initial]
  by (simp add: validateDefinition_ok_iff ex_heap_def ex_definition_def ex_merged_def
      empty_heap_def prop_of_def own_simps Object_values_def merged_fns_def)

section \<open>Claims about the lifecycle controller\<close>

text \<open>
  The claims of this section are about \<open>close\<close>, \<open>status\<close> and \<open>isHealthy\<close> of
  \<open>src/DapiClientMixin.ts\<close>. A state \<open>run uc d pre initial\<close> is any state the closure
  variables can be in after \<open>DapiClientMixin\<close> returned.
\<close>



text \<open>
  Against C3 as worded. A call of \<open>close\<close> in state \<open>OPEN\<close> on a definition without a
  user-supplied close function never makes the status \<open>CLOSING\<close>: the assignment of
  \<open>CLOSING\<close> is inside \<open>if (typeof _close === 'function')\<close>, and the call ends with the
  status \<open>CLOSED\<close>. The same holds while a result that is not an instance of \<open>Promise\<close>
  is still pending: the user close function that returns the object 60 leaves the status
  \<open>CLOSED\<close> when \<open>close\<close> returns.
\<close>

theorem C3_counterexample:
  "status initial = OPEN
   \<and> typeof (def_close ex_definition) = TUndefined
   \<and> close ex_code ex_definition (JObj 1) JUndefined initial
       = (Inr RetUndefined, initial\<lparr>status_var := CLOSED\<rparr>)
   \<and> status (snd (close ex_code ex_definition (JObj 1) JUndefined initial)) = CLOSED
   \<and> typeof (def_close def_close_thenable) = TFunction
   \<and> ex_code (def_close def_close_thenable) CLOSING [JObj 1, JUndefined] = Inr (JObj 60)
   \<and> fst (close ex_code def_close_thenable (JObj 1) JUndefined initial) = Inr RetUndefined
   \<and> status (snd (close ex_code def_close_thenable (JObj 1) JUndefined initial)) = CLOSED"
  by (simp add: status_def initial_def ex_definition_def def_close_thenable_def ex_code_def
      close_def)

text \<open>
  C3 (amended): for every call of \<open>close\<close> in state \<open>OPEN\<close> on a definition with a
  user-supplied close function, the status becomes \<open>CLOSING\<close> synchronously, before that
  function is invoked: the function runs with the status \<open>CLOSING\<close> and its completion
  decides what \<open>close\<close> returns. When the function returns a promise (an instance of
  \<open>Promise\<close>), the status is \<open>CLOSING\<close> when \<open>close\<close> returns and after every history in
  which that promise has not settled, and \<open>isHealthy\<close> returns \<open>false\<close> there without
  changing anything. Without a user-supplied close function, and when the function
  returns a value that is not an instance of \<open>Promise\<close>, \<open>close\<close> ends with the status
  \<open>CLOSED\<close>. In every case the status has left \<open>OPEN\<close> when \<open>close\<close> returns.
\<close>

theorem C3_closing_before_async_work:
  assumes "s = run uc d pre initial" and "status s = OPEN"
  shows "status (snd (close uc d deps delay s)) \<noteq> OPEN
       \<and> (typeof (def_close d) \<noteq> TFunction \<longrightarrow>
            close uc d deps delay s = (Inr RetUndefined, s\<lparr>status_var := CLOSED\<rparr>))
       \<and> (typeof (def_close d) = TFunction \<longrightarrow>
            calls (snd (close uc d deps delay s)) = calls s @ [CloseCall CLOSING deps delay]
            \<and> fst (close uc d deps delay s) =
                (case uc (def_close d) CLOSING [deps, delay] of
                   Inl e \<Rightarrow> Inl e
                 | Inr r \<Rightarrow> if instanceof_Promise r then Inr (RetThen (addr_of r))
                            else Inr RetUndefined))
       \<and> (typeof (def_close d) = TFunction
            \<and> uc (def_close d) CLOSING [deps, delay] = Inr v \<and> \<not> instanceof_Promise v \<longrightarrow>
            status (snd (close uc d deps delay s)) = CLOSED)
       \<and> (typeof (def_close d) = TFunction
            \<and> uc (def_close d) CLOSING [deps, delay] = Inr (JPromise p)
            \<and> list_all (\<lambda>ev. \<not> settles p ev) evs \<longrightarrow>
            status (snd (close uc d deps delay s)) = CLOSING
            \<and> status (run uc d evs (snd (close uc d deps delay s))) = CLOSING
            \<and> isHealthy uc d deps' (run uc d evs (snd (close uc d deps delay s)))
                = (Inr (JBool False), run uc d evs (snd (close uc d deps delay s))))"
proof (intro conjI impI)
  have op: "status_var s = OPEN" using assms(2) by (simp add: status_def)
  have nore: "reactions s = []" using reachable_open(1) [OF assms(1) op] .
  show "status (snd (close uc d deps delay s)) \<noteq> OPEN"
    using op by (simp add: close_def Let_def status_def split: sum.splits)
  {
    assume "typeof (def_close d) \<noteq> TFunction"
    then show "close uc d deps delay s = (Inr RetUndefined, s\<lparr>status_var := CLOSED\<rparr>)"
      using op by (simp add: close_without_override)
  }
  {
    assume fn: "typeof (def_close d) = TFunction"
    show "calls (snd (close uc d deps delay s)) = calls s @ [CloseCall CLOSING deps delay]"
      using op fn by (simp add: close_def Let_def split: sum.splits)
    show "fst (close uc d deps delay s) =
        (case uc (def_close d) CLOSING [deps, delay] of
           Inl e \<Rightarrow> Inl e
         | Inr r \<Rightarrow> if instanceof_Promise r then Inr (RetThen (addr_of r))
                    else Inr RetUndefined)"
      by (rule close_result [OF op fn])
  }
  {
    assume "typeof (def_close d) = TFunction
        \<and> uc (def_close d) CLOSING [deps, delay] = Inr v \<and> \<not> instanceof_Promise v"
    then show "status (snd (close uc d deps delay s)) = CLOSED"
      using op by (simp add: close_override_value status_def)
  }
  {
    assume pr: "typeof (def_close d) = TFunction
        \<and> uc (def_close d) CLOSING [deps, delay] = Inr (JPromise p)
        \<and> list_all (\<lambda>ev. \<not> settles p ev) evs"
    let ?s1 = "snd (close uc d deps delay s)"
    have c: "close uc d deps delay s =
        (Inr (RetThen p), s\<lparr>status_var := CLOSING,
           calls := calls s @ [CloseCall CLOSING deps delay], reactions := reactions s @ [p]\<rparr>)"
      using op pr by (simp add: close_override_promise)
    have s1: "status_var ?s1 = CLOSING" "reactions ?s1 = [p]" by (simp_all add: c nore)
    show "status ?s1 = CLOSING" using s1 by (simp add: status_def)
    have s2: "status_var (run uc d evs ?s1) = CLOSING"
      using pending_run [OF s1, of evs uc d] pr by simp
    then show "status (run uc d evs ?s1) = CLOSING" by (simp add: status_def)
    show "isHealthy uc d deps' (run uc d evs ?s1) = (Inr (JBool False), run uc d evs ?s1)"
      using s2 by (simp add: isHealthy_def)
  }
qed

theorem C3_closing_before_async_work_witness:
  "status initial = OPEN
   \<and> typeof (def_close ex_definition) \<noteq> TFunction
   \<and> close ex_code ex_definition (JObj 1) (JNum 50) initial
       = (Inr RetUndefined, initial\<lparr>status_var := CLOSED\<rparr>)
   \<and> typeof (def_close def_close_thenable) = TFunction
   \<and> ex_code (def_close def_close_thenable) CLOSING [JObj 1, JNum 50] = Inr (JObj 60)
   \<and> \<not> instanceof_Promise (JObj 60)
   \<and> status (snd (close ex_code def_close_thenable (JObj 1) (JNum 50) initial)) = CLOSED
   \<and> typeof (def_close def_close_pending) = TFunction
   \<and> ex_code (def_close def_close_pending) CLOSING [JObj 1, JNum 50] = Inr (JPromise 40)
   \<and> list_all (\<lambda>ev. \<not> settles 40 ev)
        [EvStatus, EvIsHealthy (JObj 1), EvClose (JObj 1) JUndefined,
         EvSettle 41 (Fulfilled JUndefined)]
   \<and> calls (snd (close ex_code def_close_pending (JObj 1) (JNum 50) initial))
       = calls initial @ [CloseCall CLOSING (JObj 1) (JNum 50)]
   \<and> fst (close ex_code def_close_pending (JObj 1) (JNum 50) initial) = Inr (RetThen 40)
   \<and> status (snd (close ex_code def_close_pending (JObj 1) (JNum 50) initial)) = CLOSING
   \<and> status (run ex_code def_close_pending
        [EvStatus, EvIsHealthy (JObj 1), EvClose (JObj 1) JUndefined,
         EvSettle 41 (Fulfilled JUndefined)]
        (snd (close ex_code def_close_pending (JObj 1) (JNum 50) initial))) = CLOSING
   \<and> fst (isHealthy ex_code def_close_pending (JObj 1)
        (run ex_code def_close_pending
           [EvStatus, EvIsHealthy (JObj 1), EvClose (JObj 1) JUndefined,
            EvSettle 41 (Fulfilled JUndefined)]
           (snd (close ex_code def_close_pending (JObj 1) (JNum 50) initial))))
       = Inr (JBool False)"
  using C3_closing_before_async_work [where s = initial and uc = ex_code
      and d = def_close_pending and pre = "[]" and deps = "JObj 1" and delay = "JNum 50"
      and p = 40 and deps' = "JObj 1" and v = JUndefined
      and evs = "[EvStatus, EvIsHealthy (JObj 1), EvClose (JObj 1) JUndefined,
         EvSettle 41 (Fulfilled JUndefined)]"]
    C3_closing_before_async_work [where s = initial and uc = ex_code
      and d = ex_definition and pre = "[]" and deps = "JObj 1" and delay = "JNum 50"
      and p = 40 and deps' = "JObj 1" and v = JUndefined and evs = "[]"]
    C3_closing_before_async_work [where s = initial and uc = ex_code
      and d = def_close_thenable and pre = "[]" and deps = "JObj 1" and delay = "JNum 50"
      and p = 40 and deps' = "JObj 1" and v = "JObj 60" and evs = "[]"]
  by (simp add: status_def initial_def def_close_pending_def def_close_thenable_def
      ex_definition_def ex_code_def close_def isHealthy_def settle_def)

text \<open>
  Against C4 as worded. The status belongs to the class, not to the instance. With a
  user-supplied close function, a first instance calls \<open>close()\<close> and the function is
  invoked; a second instance of the same class, constructed while that call is pending,
  calls \<open>close()\<close> twice, and neither call invokes the function: for this instance two
  calls of \<open>close()\<close> invoke it zero times.
\<close>

theorem C4_counterexample:
  "typeof (def_close (m_definition merged_pending)) = TFunction
   \<and> invoke ex_code ex_heap merged_pending (fst (new_instance merged_pending initial))
        ''close'' [] initial
       = (Inr (RClose (RetThen 40)), closing_state)
   \<and> new_instance merged_pending closing_state = (\<lparr>i_dependencies = JObj 1\<rparr>, closing_state)
   \<and> invoke ex_code ex_heap merged_pending \<lparr>i_dependencies = JObj 1\<rparr> ''close'' [] closing_state
       = (Inr (RClose RetUndefined), closing_state)
   \<and> calls (snd (invoke ex_code ex_heap merged_pending \<lparr>i_dependencies = JObj 1\<rparr> ''close'' []
        (snd (invoke ex_code ex_heap merged_pending \<lparr>i_dependencies = JObj 1\<rparr> ''close'' []
           closing_state))))
       = calls closing_state"
  by (simp add: merged_pending_def def_close_pending_def ex_definition_def invoke_def
      new_instance_def initial_def closing_state_def close_def ex_code_def)

text \<open>
  C4 (amended): \<open>close\<close> is idempotent on the status it guards. A call made when the status
  is not \<open>OPEN\<close> returns \<open>undefined\<close> at once, invokes nothing and raises nothing. A call
  made when the status is \<open>OPEN\<close> and a user-supplied close function exists invokes that
  function once: the completion of that one invocation is what the call returns or
  throws. Every later call of \<open>close\<close>, after any history, and so also while the first
  is still pending, returns \<open>undefined\<close> and changes nothing: whatever follows the first
  call, the function has been invoked exactly once, and along every history it is
  invoked at most once.
\<close>

theorem C4_close_idempotent:
  "(status s \<noteq> OPEN \<longrightarrow> close uc d deps delay s = (Inr RetUndefined, s))
   \<and> close_calls (run uc d evs initial) \<le> 1
   \<and> (typeof (def_close d) = TFunction \<and> s = run uc d pre initial \<and> status s = OPEN \<longrightarrow>
        fst (close uc d deps delay s) =
          (case uc (def_close d) CLOSING [deps, delay] of
             Inl e \<Rightarrow> Inl e
           | Inr r \<Rightarrow> if instanceof_Promise r then Inr (RetThen (addr_of r))
                      else Inr RetUndefined)
        \<and> calls (snd (close uc d deps delay s)) = calls s @ [CloseCall CLOSING deps delay]
        \<and> close uc d deps' delay' (run uc d evs (snd (close uc d deps delay s)))
            = (Inr RetUndefined, run uc d evs (snd (close uc d deps delay s)))
        \<and> close_calls (run uc d (EvClose deps delay # evs) s) = 1)"
proof (intro conjI impI)
  assume "status s \<noteq> OPEN"
  then show "close uc d deps delay s = (Inr RetUndefined, s)"
    by (simp add: status_def close_not_open)
next
  have "consistent (run uc d evs initial)"
    by (rule consistent_run [OF consistent_initial])
  then show "close_calls (run uc d evs initial) \<le> 1"
    by (cases "status_var (run uc d evs initial)") (simp_all add: consistent_def)
next
  assume a: "typeof (def_close d) = TFunction \<and> s = run uc d pre initial \<and> status s = OPEN"
  then have "status s = OPEN" by blast
  then have op: "status_var s = OPEN" by (simp add: status_def)
  have fn: "typeof (def_close d) = TFunction" using a by blast
  have r: "s = run uc d pre initial" using a by blast
  have zero: "close_calls s = 0" by (rule reachable_open(2) [OF r op])
  let ?s1 = "snd (close uc d deps delay s)"
  show "fst (close uc d deps delay s) =
      (case uc (def_close d) CLOSING [deps, delay] of
         Inl e \<Rightarrow> Inl e
       | Inr r \<Rightarrow> if instanceof_Promise r then Inr (RetThen (addr_of r))
                  else Inr RetUndefined)"
    by (rule close_result [OF op fn])
  show "calls ?s1 = calls s @ [CloseCall CLOSING deps delay]"
    using op fn by (simp add: close_def Let_def split: sum.splits)
  have s1: "status_var ?s1 \<noteq> OPEN" "close_calls ?s1 = 1"
    using op fn zero by (simp_all add: close_def Let_def close_calls_def split: sum.splits)
  have "status_var (run uc d evs ?s1) \<noteq> OPEN"
    by (rule not_open_run_status [OF s1(1)])
  then show "close uc d deps' delay' (run uc d evs ?s1) = (Inr RetUndefined, run uc d evs ?s1)"
    by (rule close_not_open)
  show "close_calls (run uc d (EvClose deps delay # evs) s) = 1"
    using s1 by (simp add: not_open_run)
qed

theorem C4_close_idempotent_witness:
  "status closing_state \<noteq> OPEN
   \<and> close ex_code def_close_pending (JObj 1) JUndefined closing_state
       = (Inr RetUndefined, closing_state)
   \<and> typeof (def_close def_close_pending) = TFunction
   \<and> initial = run ex_code def_close_pending [] initial
   \<and> status initial = OPEN
   \<and> fst (close ex_code def_close_pending (JObj 1) JUndefined initial) = Inr (RetThen 40)
   \<and> calls (snd (close ex_code def_close_pending (JObj 1) JUndefined initial))
       = [CloseCall CLOSING (JObj 1) JUndefined]
   \<and> fst (close ex_code def_close_pending (JObj 1) JUndefined
        (run ex_code def_close_pending
           [EvClose (JObj 1) JUndefined, EvSettle 40 (Fulfilled JUndefined),
            EvClose (JObj 1) JUndefined]
           (snd (close ex_code def_close_pending (JObj 1) JUndefined initial))))
       = Inr RetUndefined
   \<and> close_calls (run ex_code def_close_pending
        [EvClose (JObj 1) JUndefined, EvClose (JObj 1) JUndefined,
         EvSettle 40 (Fulfilled JUndefined), EvClose (JObj 1) JUndefined] initial) = 1"
  using C4_close_idempotent [where s = closing_state and uc = ex_code
      and d = def_close_pending and deps = "JObj 1" and delay = JUndefined
      and deps' = "JObj 1" and delay' = JUndefined and evs = "[]" and pre = "[]"]
    C4_close_idempotent [where s = initial and uc = ex_code
      and d = def_close_pending and deps = "JObj 1" and delay = JUndefined
      and deps' = "JObj 1" and delay' = JUndefined
      and evs = "[EvClose (JObj 1) JUndefined, EvSettle 40 (Fulfilled JUndefined),
         EvClose (JObj 1) JUndefined]" and pre = "[]"]
  by (simp add: status_def initial_def closing_state_def def_close_pending_def
      ex_definition_def ex_code_def close_def settle_def close_calls_def)

text \<open>
  C5: \<open>isHealthy\<close> returns \<open>false\<close> and invokes nothing whenever the status is \<open>CLOSING\<close> or
  \<open>CLOSED\<close>; in state \<open>OPEN\<close> it returns what the user-supplied health check returns when
  there is one, and \<open>true\<close> otherwise. For an accepted definition there is a health check
  exactly when \<open>isHealthy\<close> of the definition is truthy. After a successful \<open>close\<close>
  (one that returned \<open>undefined\<close>, or one whose promise fulfilled) the status is \<open>CLOSED\<close>
  and \<open>isHealthy\<close> returns \<open>false\<close>, whatever the health check would return.
\<close>

theorem C5_isHealthy_by_status:
  "(status s \<noteq> OPEN \<longrightarrow> isHealthy uc d deps s = (Inr (JBool False), s))
   \<and> (status s = OPEN \<and> typeof (def_isHealthy d) = TFunction \<longrightarrow>
        fst (isHealthy uc d deps s) = uc (def_isHealthy d) OPEN [deps])
   \<and> (status s = OPEN \<and> typeof (def_isHealthy d) \<noteq> TFunction \<longrightarrow>
        isHealthy uc d deps s = (Inr (JBool True), s))
   \<and> (validateDefinition h d = Inr () \<longrightarrow>
        (typeof (def_isHealthy d) = TFunction) = truthy (def_isHealthy d))
   \<and> (status s = OPEN \<and> fst (close uc d deps' delay s) = Inr RetUndefined \<longrightarrow>
        status (snd (close uc d deps' delay s)) = CLOSED
        \<and> fst (isHealthy uc d deps (snd (close uc d deps' delay s))) = Inr (JBool False))
   \<and> (p \<in> set (reactions s) \<longrightarrow>
        status (snd (settle p (Fulfilled v) s)) = CLOSED
        \<and> fst (isHealthy uc d deps (snd (settle p (Fulfilled v) s))) = Inr (JBool False))"
  apply (intro conjI impI)
  apply (simp add: status_def isHealthy_def)
  apply (simp add: status_def isHealthy_def)
  apply (simp add: status_def isHealthy_def)
  apply (cases "def_isHealthy d"; simp add: validateDefinition_def Let_def split: if_splits)
  apply (auto simp: status_def isHealthy_def close_def Let_def settle_def split: if_splits sum.splits)
  done

theorem C5_isHealthy_by_status_witness:
  "status closed_state \<noteq> OPEN
   \<and> isHealthy ex_code def_healthy (JObj 1) closed_state = (Inr (JBool False), closed_state)
   \<and> status initial = OPEN
   \<and> typeof (def_isHealthy def_healthy) = TFunction
   \<and> fst (isHealthy ex_code def_healthy (JObj 1) initial) = Inr (JBool True)
   \<and> typeof (def_isHealthy ex_definition) \<noteq> TFunction
   \<and> isHealthy ex_code ex_definition (JObj 1) initial = (Inr (JBool True), initial)
   \<and> validateDefinition ex_heap def_healthy = Inr ()
   \<and> truthy (def_isHealthy def_healthy)
   \<and> fst (close ex_code def_healthy (JObj 1) JUndefined initial) = Inr RetUndefined
   \<and> status (snd (close ex_code def_healthy (JObj 1) JUndefined initial)) = CLOSED
   \<and> fst (isHealthy ex_code def_healthy (JObj 1)
        (snd (close ex_code def_healthy (JObj 1) JUndefined initial))) = Inr (JBool False)
   \<and> 40 \<in> set (reactions closing_state)
   \<and> status (snd (settle 40 (Fulfilled JUndefined) closing_state)) = CLOSED
   \<and> fst (isHealthy ex_code def_healthy (JObj 1)
        (snd (settle 40 (Fulfilled JUndefined) closing_state))) = Inr (JBool False)"
  using C5_isHealthy_by_status [where s = closed_state and uc = ex_code and d = def_healthy
      and deps = "JObj 1" and h = ex_heap and deps' = "JObj 1" and delay = JUndefined
      and p = 40 and v = JUndefined]
    C5_isHealthy_by_status [where s = initial and uc = ex_code and d = def_healthy
      and deps = "JObj 1" and h = ex_heap and deps' = "JObj 1" and delay = JUndefined
      and p = 40 and v = JUndefined]
    C5_isHealthy_by_status [where s = initial and uc = ex_code and d = ex_definition
      and deps = "JObj 1" and h = ex_heap and deps' = "JObj 1" and delay = JUndefined
      and p = 40 and v = JUndefined]
    C5_isHealthy_by_status [where s = closing_state and uc = ex_code and d = def_healthy
      and deps = "JObj 1" and h = ex_heap and deps' = "JObj 1" and delay = JUndefined
      and p = 40 and v = JUndefined]
  by (simp add: status_def initial_def closed_state_def closing_state_def def_healthy_def
      ex_definition_def ex_code_def validateDefinition_ok_iff ex_heap_def empty_heap_def
      prop_of_def own_simps Object_values_def close_def isHealthy_def settle_def)

text \<open>
  Against C6 as worded. \<open>let _status\<close> is executed once per call of \<open>DapiClientMixin\<close>, not
  once per instance, and the constructor cannot reach it: all instances of the returned
  class share one status. A first instance reports \<open>OPEN\<close>; after its \<open>close()\<close> a second
  instance of the same class reports \<open>CLOSED\<close> immediately after its construction.
\<close>

theorem C6_counterexample:
  "DapiClientMixin Inr ex_heap ex_definition = Inr (ex_merged, initial)
   \<and> invoke ex_code ex_heap ex_merged (fst (new_instance ex_merged initial)) ''status'' [] initial
       = (Inr (RStatus OPEN), initial)
   \<and> invoke ex_code ex_heap ex_merged (fst (new_instance ex_merged initial)) ''close'' [] initial
       = (Inr (RClose RetUndefined), initial\<lparr>status_var := CLOSED\<rparr>)
   \<and> invoke ex_code ex_heap ex_merged
        (fst (new_instance ex_merged (initial\<lparr>status_var := CLOSED\<rparr>))) ''status'' []
        (snd (new_instance ex_merged (initial\<lparr>status_var := CLOSED\<rparr>)))
       = (Inr (RStatus CLOSED), initial\<lparr>status_var := CLOSED\<rparr>)"
  by (simp add: DapiClientMixin_def validateDefinition_def ex_heap_def ex_definition_def
      ex_merged_def initial_def empty_heap_def prop_of_def own_simps Object_values_def
      merged_fns_def invoke_def new_instance_def status_def close_def)

text \<open>
  C6 (amended): the lifecycle status is monotonic. It is \<open>OPEN\<close> when \<open>DapiClientMixin\<close>
  returns and after every history without a call of \<open>close\<close>, hence immediately after the
  construction of an instance when no instance of the same class has been closed before.
  Every event moves it forward in the order \<open>OPEN\<close>, \<open>CLOSING\<close>, \<open>CLOSED\<close> or leaves it
  alone, along single events and along histories; an event that changes it is a call of
  \<open>close\<close> or the fulfilment of the promise on which \<open>close\<close> has registered its callback;
  and once it is \<open>CLOSED\<close> it is \<open>CLOSED\<close> after every history.
\<close>

theorem C6_status_monotonic:
  "(DapiClientMixin DapiMixin h d = Inr (cls, s0) \<longrightarrow>
      status s0 = OPEN
      \<and> (list_all (\<lambda>e. \<not> closes e) pre \<longrightarrow>
           status (snd (new_instance md (run uc d pre s0))) = OPEN))
   \<and> rank (status s) \<le> rank (status (step uc d e s))
   \<and> rank (status s) \<le> rank (status (run uc d evs s))
   \<and> (status (step uc d e s) \<noteq> status s \<longrightarrow> is_close_event s e)
   \<and> (status s = CLOSED \<longrightarrow> status (run uc d evs s) = CLOSED)"
proof (intro conjI impI)
  assume m: "DapiClientMixin DapiMixin h d = Inr (cls, s0)"
  then have s0: "s0 = initial"
    by (auto simp: DapiClientMixin_def initial_def Let_def split: sum.splits)
  show "status s0 = OPEN" by (simp add: s0 status_def initial_def)
  assume "list_all (\<lambda>e. \<not> closes e) pre"
  then have "status_var (run uc d pre s0) = OPEN"
    by (intro open_run) (simp_all add: s0 initial_def)
  then show "status (snd (new_instance md (run uc d pre s0))) = OPEN"
    by (simp add: new_instance_def status_def)
next
  show "rank (status s) \<le> rank (status (step uc d e s))"
    by (simp add: status_def rank_step)
  show "rank (status s) \<le> rank (status (run uc d evs s))"
    by (simp add: status_def rank_run)
next
  assume "status (step uc d e s) \<noteq> status s"
  then show "is_close_event s e" by (simp add: status_def status_change_step)
next
  assume "status s = CLOSED"
  then show "status (run uc d evs s) = CLOSED" by (simp add: status_def closed_run)
qed

theorem C6_status_monotonic_witness:
  "DapiClientMixin Inr ex_heap ex_definition = Inr (ex_merged, initial)
   \<and> status initial = OPEN
   \<and> list_all (\<lambda>e. \<not> closes e) [EvNew, EvIsHealthy (JObj 1), EvCommand ''command1'' [], EvStatus]
   \<and> status (snd (new_instance ex_merged (run ex_code ex_definition
        [EvNew, EvIsHealthy (JObj 1), EvCommand ''command1'' [], EvStatus] initial))) = OPEN
   \<and> status (step ex_code ex_definition (EvClose (JObj 1) JUndefined) initial) \<noteq> status initial
   \<and> is_close_event initial (EvClose (JObj 1) JUndefined)
   \<and> status closed_state = CLOSED
   \<and> status (run ex_code ex_definition [EvClose (JObj 1) JUndefined, EvNew, EvIsHealthy (JObj 1)]
        closed_state) = CLOSED"
  using C6_status_monotonic [where DapiMixin = Inr and h = ex_heap and d = ex_definition
      and cls = ex_merged and ?s0.0 = initial and md = ex_merged and s = initial
      and uc = ex_code and e = "EvClose (JObj 1) JUndefined" and evs = "[]"
      and pre = "[EvNew, EvIsHealthy (JObj 1), EvCommand ''command1'' [], EvStatus]"]
    C6_status_monotonic [where DapiMixin = Inr and h = ex_heap and d = ex_definition
      and cls = ex_merged and ?s0.0 = initial and md = ex_merged and s = closed_state
      and uc = ex_code and e = EvStatus and pre = "[]"
      and evs = "[EvClose (JObj 1) JUndefined, EvNew, EvIsHealthy (JObj 1)]"]
  by (simp add: DapiClientMixin_def validateDefinition_def ex_heap_def ex_definition_def
      ex_merged_def initial_def closed_state_def empty_heap_def prop_of_def own_simps
      Object_values_def merged_fns_def status_def close_def isHealthy_def new_instance_def)

text \<open>
  C7: the synthesized operations keep the synchronicity of the user-supplied functions.
  \<open>close\<close> returns a promise exactly when it runs in state \<open>OPEN\<close>, a user-supplied close
  function exists and that function returns a promise; without such a function, or when
  it returns anything that is not a promise, \<open>close\<close> returns \<open>undefined\<close> with the status
  already \<open>CLOSED\<close> and no callback left. \<open>isHealthy\<close> returns a promise exactly when it
  runs in state \<open>OPEN\<close> and the user-supplied health check returns one; without a health
  check it returns a plain boolean, and with one it returns that function's own result.
\<close>

theorem C7_synchronicity_preserved:
  "(fst (close uc d deps delay s) = Inr (RetThen p) \<longleftrightarrow>
      status s = OPEN \<and> typeof (def_close d) = TFunction
      \<and> uc (def_close d) CLOSING [deps, delay] = Inr (JPromise p))
   \<and> (status s = OPEN \<and> typeof (def_close d) \<noteq> TFunction \<longrightarrow>
        close uc d deps delay s = (Inr RetUndefined, s\<lparr>status_var := CLOSED\<rparr>))
   \<and> (status s = OPEN \<and> typeof (def_close d) = TFunction
        \<and> uc (def_close d) CLOSING [deps, delay] = Inr v \<and> \<not> instanceof_Promise v \<longrightarrow>
        fst (close uc d deps delay s) = Inr RetUndefined
        \<and> status (snd (close uc d deps delay s)) = CLOSED
        \<and> reactions (snd (close uc d deps delay s)) = reactions s)
   \<and> (fst (isHealthy uc d deps s) = Inr (JPromise p) \<longleftrightarrow>
        status s = OPEN \<and> typeof (def_isHealthy d) = TFunction
        \<and> uc (def_isHealthy d) OPEN [deps] = Inr (JPromise p))
   \<and> (typeof (def_isHealthy d) \<noteq> TFunction \<longrightarrow>
        fst (isHealthy uc d deps s) = Inr (JBool (status s = OPEN)))
   \<and> (status s = OPEN \<and> typeof (def_isHealthy d) = TFunction \<longrightarrow>
        fst (isHealthy uc d deps s) = uc (def_isHealthy d) OPEN [deps])"
  apply (intro conjI impI)
  apply (auto simp: status_def close_def Let_def instanceof_Promise_iff split: sum.splits if_splits)[1]
  apply (simp add: status_def close_def)
  apply (simp add: status_def close_def Let_def)
  apply (simp add: status_def close_def Let_def)
  apply (simp add: status_def close_def Let_def)
  apply (auto simp: status_def isHealthy_def split: if_splits)
  done

theorem C7_synchronicity_preserved_witness:
  "fst (close ex_code def_close_pending (JObj 1) JUndefined initial) = Inr (RetThen 40)
   \<and> status initial = OPEN
   \<and> typeof (def_close ex_definition) \<noteq> TFunction
   \<and> close ex_code ex_definition (JObj 1) JUndefined initial
       = (Inr RetUndefined, initial\<lparr>status_var := CLOSED\<rparr>)
   \<and> typeof (def_close def_healthy_sync_close) = TFunction
   \<and> ex_code (def_close def_healthy_sync_close) CLOSING [JObj 1, JUndefined] = Inr (JBool True)
   \<and> \<not> instanceof_Promise (JBool True)
   \<and> fst (close ex_code def_healthy_sync_close (JObj 1) JUndefined initial) = Inr RetUndefined
   \<and> status (snd (close ex_code def_healthy_sync_close (JObj 1) JUndefined initial)) = CLOSED
   \<and> fst (isHealthy ex_code def_healthy_pending (JObj 1) initial) = Inr (JPromise 40)
   \<and> fst (isHealthy ex_code ex_definition (JObj 1) initial) = Inr (JBool True)
   \<and> typeof (def_isHealthy def_healthy_sync_close) = TFunction
   \<and> fst (isHealthy ex_code def_healthy_sync_close (JObj 1) initial) = Inr (JBool True)"
  using C7_synchronicity_preserved [where uc = ex_code and d = def_close_pending
      and deps = "JObj 1" and delay = JUndefined and s = initial and p = 40 and v = JUndefined]
    C7_synchronicity_preserved [where uc = ex_code and d = ex_definition
      and deps = "JObj 1" and delay = JUndefined and s = initial and p = 40 and v = JUndefined]
    C7_synchronicity_preserved [where uc = ex_code and d = def_healthy_sync_close
      and deps = "JObj 1" and delay = JUndefined and s = initial and p = 40
      and v = "JBool True"]
    C7_synchronicity_preserved [where uc = ex_code and d = def_healthy_pending
      and deps = "JObj 1" and delay = JUndefined and s = initial and p = 40 and v = JUndefined]
  by (simp add: status_def initial_def def_close_pending_def def_healthy_sync_close_def
      def_healthy_pending_def ex_definition_def ex_code_def close_def isHealthy_def)

section \<open>Claims about the dependency store accessors\<close>

text \<open>
  Against C8 as worded. \<open>setClient\<close> of \<open>unnamed/part_001\<close> assigns \<open>dependencies.client\<close> on
  the object that \<open>getDependencies()\<close> returns. With the bundle \<open>{client, opts}\<close> at
  address 1 and a new client, the store afterwards still holds the object at address 1
  and a reader of that object sees the new client, whereas \<open>update({client})\<close> as
  specified points the store to a new object and leaves the old one with the old client.
\<close>

theorem C8_counterexample:
  "setClient plain_objects (JObj 20) (ex_heap, ex_wrapper)
     = (Inr (), ex_heap(1 := [(''client'', JObj 20), (''opts'', JObj 11)]), ex_wrapper)
   \<and> getDependencies (snd (snd (setClient plain_objects (JObj 20) (ex_heap, ex_wrapper))))
       = JObj 1
   \<and> prop_of (fst (snd (setClient plain_objects (JObj 20) (ex_heap, ex_wrapper)))) (JObj 1)
        ''client'' = JObj 20
   \<and> getDependencies (snd (update_spec 4 [(''client'', JObj 20)] (ex_heap, ex_wrapper))) = JObj 4
   \<and> prop_of (fst (update_spec 4 [(''client'', JObj 20)] (ex_heap, ex_wrapper))) (JObj 1) ''client''
       = JObj 10"
  by (simp add: setClient_def ex_heap_def ex_wrapper_def getDependencies_def nullish_def
      prop_of_def own_simps set_prop_def update_spec_def super_setDependencies_def
      shallow_merge_def empty_heap_def plain_objects_def)

text \<open>
  C8 (amended): let \<open>newClient\<close> be truthy. If it is identical to the current client,
  \<open>setClient(newClient)\<close> changes nothing. Otherwise, when the store holds a bundle object
  that accepts a write to \<open>client\<close>, \<open>setClient\<close> replaces the \<open>client\<close> key of that object
  in place: the store keeps the same bundle object, whose properties afterwards are those
  that \<open>update({client: newClient})\<close> would give the new bundle (the previous bundle with
  only the \<open>client\<close> key replaced), so that a reader holding the earlier reference sees
  the new client; no other object changes. When the bundle refuses the write (a frozen
  bundle) or the store holds no object, \<open>setClient\<close> throws a \<open>TypeError\<close> and changes
  nothing.
\<close>

theorem C8_setClient_in_place:
  assumes "truthy newClient"
  shows "(strict_eq (getClient h w) newClient \<longrightarrow>
            setClient readonly newClient (h, w) = (Inr (), h, w))
       \<and> (\<not> strict_eq (getClient h w) newClient \<and> is_ref (getDependencies w)
            \<and> \<not> readonly (addr_of (getDependencies w)) ''client'' \<longrightarrow>
            setClient readonly newClient (h, w)
              = (Inr (), h(addr_of (getDependencies w) :=
                    AList.update ''client'' newClient (h (addr_of (getDependencies w)))), w)
            \<and> fst (snd (setClient readonly newClient (h, w))) (addr_of (getDependencies w))
                = fst (update_spec fresh [(''client'', newClient)] (h, w)) fresh
            \<and> prop_of (fst (snd (setClient readonly newClient (h, w)))) (getDependencies w) k
                = (if k = ''client'' then newClient else prop_of h (getDependencies w) k)
            \<and> (a \<noteq> addr_of (getDependencies w) \<longrightarrow>
                 fst (snd (setClient readonly newClient (h, w))) a = h a))
       \<and> (\<not> strict_eq (getClient h w) newClient
            \<and> (\<not> is_ref (getDependencies w)
                \<or> readonly (addr_of (getDependencies w)) ''client'') \<longrightarrow>
            throws_TypeError (fst (setClient readonly newClient (h, w)))
            \<and> snd (setClient readonly newClient (h, w)) = (h, w))"
proof (intro conjI impI)
  assume "strict_eq (getClient h w) newClient"
  then show "setClient readonly newClient (h, w) = (Inr (), h, w)"
    using assms by (simp add: setClient_def getClient_def Let_def)
next
  assume a: "\<not> strict_eq (getClient h w) newClient \<and> is_ref (getDependencies w)
      \<and> \<not> readonly (addr_of (getDependencies w)) ''client''"
  then have ne: "\<not> strict_eq (getClient h w) newClient" and rf: "is_ref (getDependencies w)"
    and wr: "\<not> readonly (addr_of (getDependencies w)) ''client''"
    by blast+
  have eq: "setClient readonly newClient (h, w)
      = (Inr (), h(addr_of (getDependencies w) :=
            AList.update ''client'' newClient (h (addr_of (getDependencies w)))), w)"
    using assms ne rf wr by (simp add: setClient_def getClient_def Let_def set_prop_def)
  show "setClient readonly newClient (h, w)
      = (Inr (), h(addr_of (getDependencies w) :=
            AList.update ''client'' newClient (h (addr_of (getDependencies w)))), w)"
    by (rule eq)
  show "fst (snd (setClient readonly newClient (h, w))) (addr_of (getDependencies w))
      = fst (update_spec fresh [(''client'', newClient)] (h, w)) fresh"
    by (simp add: eq update_spec_def shallow_merge_def)
  show "prop_of (fst (snd (setClient readonly newClient (h, w)))) (getDependencies w) k
      = (if k = ''client'' then newClient else prop_of h (getDependencies w) k)"
    using rf by (simp add: eq prop_of_def own_update)
  {
    assume "a \<noteq> addr_of (getDependencies w)"
    then show "fst (snd (setClient readonly newClient (h, w))) a = h a"
      by (simp add: eq)
  }
next
  assume a: "\<not> strict_eq (getClient h w) newClient
      \<and> (\<not> is_ref (getDependencies w) \<or> readonly (addr_of (getDependencies w)) ''client'')"
  then have ne: "\<not> strict_eq (getClient h w) newClient"
    and no: "\<not> is_ref (getDependencies w) \<or> readonly (addr_of (getDependencies w)) ''client''"
    by blast+
  have "setClient readonly newClient (h, w)
      = (if is_ref (getDependencies w)
         then (Inl (TypeError ''Cannot assign to read only property''), h, w)
         else (Inl (TypeError ''Cannot set property''), h, w))"
    using assms ne no by (auto simp: setClient_def getClient_def Let_def set_prop_def)
  then show "throws_TypeError (fst (setClient readonly newClient (h, w)))"
    and "snd (setClient readonly newClient (h, w)) = (h, w)"
    by (simp_all add: throws_TypeError_def)
qed

theorem C8_setClient_in_place_witness:
  "truthy (JObj 20) \<and> is_ref (getDependencies ex_wrapper)
   \<and> \<not> strict_eq (getClient ex_heap ex_wrapper) (JObj 20)
   \<and> \<not> plain_objects (addr_of (getDependencies ex_wrapper)) ''client''
   \<and> setClient plain_objects (JObj 20) (ex_heap, ex_wrapper)
       = (Inr (), ex_heap(1 := [(''client'', JObj 20), (''opts'', JObj 11)]), ex_wrapper)
   \<and> fst (snd (setClient plain_objects (JObj 20) (ex_heap, ex_wrapper))) 1
       = fst (update_spec 4 [(''client'', JObj 20)] (ex_heap, ex_wrapper)) 4
   \<and> prop_of (fst (snd (setClient plain_objects (JObj 20) (ex_heap, ex_wrapper))))
        (getDependencies ex_wrapper) ''opts'' = JObj 11
   \<and> fst (snd (setClient plain_objects (JObj 20) (ex_heap, ex_wrapper))) 2 = ex_heap 2
   \<and> truthy (JObj 10)
   \<and> strict_eq (getClient ex_heap ex_wrapper) (JObj 10)
   \<and> setClient plain_objects (JObj 10) (ex_heap, ex_wrapper) = (Inr (), ex_heap, ex_wrapper)
   \<and> bundle_frozen (addr_of (getDependencies ex_wrapper)) ''client''
   \<and> throws_TypeError (fst (setClient bundle_frozen (JObj 20) (ex_heap, ex_wrapper)))
   \<and> snd (setClient bundle_frozen (JObj 20) (ex_heap, ex_wrapper)) = (ex_heap, ex_wrapper)"
  using C8_setClient_in_place [where newClient = "JObj 20" and w = ex_wrapper and h = ex_heap
      and readonly = plain_objects and fresh = 4 and k = "''opts''" and a = 2]
    C8_setClient_in_place [where newClient = "JObj 10" and w = ex_wrapper and h = ex_heap
      and readonly = plain_objects and fresh = 4 and k = "''opts''" and a = 2]
    C8_setClient_in_place [where newClient = "JObj 20" and w = ex_wrapper and h = ex_heap
      and readonly = bundle_frozen and fresh = 4 and k = "''opts''" and a = 2]
  by (simp add: ex_heap_def ex_wrapper_def getDependencies_def getClient_def nullish_def
      prop_of_def own_simps empty_heap_def update_spec_def shallow_merge_def
      super_setDependencies_def plain_objects_def bundle_frozen_def)

text \<open>
  C9: \<open>setDependencies\<close> throws a \<open>TypeError\<close> when its argument is falsy and when the
  argument has no truthy \<open>client\<close> (as \<open>{}\<close>), and \<open>setClient\<close> throws a \<open>TypeError\<close> when
  its argument is falsy. Each of these calls leaves the heap and the instance, that is
  the stored bundle, its contents and the lifecycle status, exactly as they were.
\<close>

theorem C9_invalid_arguments_rejected:
  "(\<not> truthy newDeps \<longrightarrow>
      setDependencies newDeps (h, w) = (Inl (TypeError ''Dependencies must be defined''), h, w))
   \<and> (truthy newDeps \<and> \<not> truthy (prop_of h newDeps ''client'') \<longrightarrow>
      setDependencies newDeps (h, w) = (Inl (TypeError ''Dependencies must have a client''), h, w))
   \<and> (\<not> truthy newClient \<longrightarrow>
      setClient readonly newClient (h, w) = (Inl (TypeError ''Client cannot be falsy''), h, w))"
  by (simp add: setDependencies_def setClient_def)

theorem C9_invalid_arguments_rejected_witness:
  "\<not> truthy JUndefined
   \<and> setDependencies JUndefined (ex_heap, ex_wrapper)
       = (Inl (TypeError ''Dependencies must be defined''), ex_heap, ex_wrapper)
   \<and> truthy (JObj 3) \<and> \<not> truthy (prop_of ex_heap (JObj 3) ''client'')
   \<and> setDependencies (JObj 3) (ex_heap, ex_wrapper)
       = (Inl (TypeError ''Dependencies must have a client''), ex_heap, ex_wrapper)
   \<and> setClient plain_objects JUndefined (ex_heap, ex_wrapper)
       = (Inl (TypeError ''Client cannot be falsy''), ex_heap, ex_wrapper)
   \<and> w_status (snd (snd (setDependencies (JObj 3) (ex_heap, ex_wrapper)))) = OPEN
   \<and> getClient (fst (snd (setClient plain_objects JUndefined (ex_heap, ex_wrapper))))
        (snd (snd (setClient plain_objects JUndefined (ex_heap, ex_wrapper)))) = JObj 10"
  using C9_invalid_arguments_rejected [where newDeps = JUndefined and h = ex_heap
      and w = ex_wrapper and newClient = JUndefined and readonly = plain_objects]
    C9_invalid_arguments_rejected [where newDeps = "JObj 3" and h = ex_heap
      and w = ex_wrapper and newClient = JUndefined and readonly = plain_objects]
  by (simp add: ex_heap_def ex_wrapper_def prop_of_def own_simps empty_heap_def
      getClient_def getDependencies_def nullish_def)

end
